theory Spec2Isabelle
  imports Complex_Main
begin

section \<open>Numbers\<close>

text \<open>
  The program computes with float64 values.  A value is modelled as a finite real, one of
  the two infinities, or NaN.  Arithmetic on finite values is exact (rounding, overflow and
  the sign of zero are not modelled); the special values follow the IEEE rules that numpy
  applies: NaN is absorbing, \<open>inf - inf\<close>, \<open>0 * inf\<close>, \<open>0 / 0\<close> and
  \<open>inf / inf\<close> are NaN, \<open>x / 0\<close> is an infinity, every comparison with NaN is false.
\<close>

datatype fl = Fin real | PInf | NInf | NaN

definition signed_inf :: "real \<Rightarrow> fl" where
  "signed_inf s = (if s = 0 then NaN else if 0 < s then PInf else NInf)"

instantiation fl :: "{plus, minus, uminus, times, inverse, ord, abs, zero, one}"
begin

definition zero_fl :: fl where
  "zero_fl = Fin 0"

definition one_fl :: fl where
  "one_fl = Fin 1"

fun uminus_fl :: "fl \<Rightarrow> fl" where
  "uminus_fl (Fin a) = Fin (- a)"
| "uminus_fl PInf = NInf"
| "uminus_fl NInf = PInf"
| "uminus_fl NaN = NaN"

fun plus_fl :: "fl \<Rightarrow> fl \<Rightarrow> fl" where
  "plus_fl (Fin a) (Fin b) = Fin (a + b)"
| "plus_fl NaN _ = NaN"
| "plus_fl _ NaN = NaN"
| "plus_fl PInf NInf = NaN"
| "plus_fl NInf PInf = NaN"
| "plus_fl PInf _ = PInf"
| "plus_fl _ PInf = PInf"
| "plus_fl NInf _ = NInf"
| "plus_fl _ NInf = NInf"

definition minus_fl :: "fl \<Rightarrow> fl \<Rightarrow> fl" where
  "minus_fl u w = u + (- w)"

fun times_fl :: "fl \<Rightarrow> fl \<Rightarrow> fl" where
  "times_fl (Fin a) (Fin b) = Fin (a * b)"
| "times_fl NaN _ = NaN"
| "times_fl _ NaN = NaN"
| "times_fl PInf (Fin b) = signed_inf b"
| "times_fl NInf (Fin b) = signed_inf (- b)"
| "times_fl (Fin a) PInf = signed_inf a"
| "times_fl (Fin a) NInf = signed_inf (- a)"
| "times_fl PInf PInf = PInf"
| "times_fl PInf NInf = NInf"
| "times_fl NInf PInf = NInf"
| "times_fl NInf NInf = PInf"

fun divide_fl :: "fl \<Rightarrow> fl \<Rightarrow> fl" where
  "divide_fl (Fin a) (Fin b) = (if b = 0 then signed_inf a else Fin (a / b))"
| "divide_fl NaN _ = NaN"
| "divide_fl _ NaN = NaN"
| "divide_fl (Fin a) PInf = Fin 0"
| "divide_fl (Fin a) NInf = Fin 0"
| "divide_fl PInf (Fin b) = (if 0 \<le> b then PInf else NInf)"
| "divide_fl NInf (Fin b) = (if 0 \<le> b then NInf else PInf)"
| "divide_fl PInf PInf = NaN"
| "divide_fl PInf NInf = NaN"
| "divide_fl NInf PInf = NaN"
| "divide_fl NInf NInf = NaN"

definition inverse_fl :: "fl \<Rightarrow> fl" where
  "inverse_fl u = divide (Fin 1) u"

fun abs_fl :: "fl \<Rightarrow> fl" where
  "abs_fl (Fin a) = Fin \<bar>a\<bar>"
| "abs_fl PInf = PInf"
| "abs_fl NInf = PInf"
| "abs_fl NaN = NaN"

fun less_fl :: "fl \<Rightarrow> fl \<Rightarrow> bool" where
  "less_fl (Fin a) (Fin b) = (a < b)"
| "less_fl NaN _ = False"
| "less_fl _ NaN = False"
| "less_fl NInf NInf = False"
| "less_fl NInf _ = True"
| "less_fl _ NInf = False"
| "less_fl PInf _ = False"
| "less_fl _ PInf = True"

fun less_eq_fl :: "fl \<Rightarrow> fl \<Rightarrow> bool" where
  "less_eq_fl (Fin a) (Fin b) = (a \<le> b)"
| "less_eq_fl NaN _ = False"
| "less_eq_fl _ NaN = False"
| "less_eq_fl NInf _ = True"
| "less_eq_fl _ PInf = True"
| "less_eq_fl PInf _ = False"
| "less_eq_fl _ NInf = False"

instance ..

end

text \<open>\<open>np.sqrt\<close>: NaN on a negative argument (numpy warns, it does not raise).\<close>

fun fsqrt :: "fl \<Rightarrow> fl" where
  "fsqrt (Fin a) = (if a < 0 then NaN else Fin (sqrt a))"
| "fsqrt PInf = PInf"
| "fsqrt NInf = NaN"
| "fsqrt NaN = NaN"

text \<open>\<open>u ** 2\<close>.\<close>

definition sq :: "fl \<Rightarrow> fl" where
  "sq u = u * u"

text \<open>A Python bool used as a number, as in \<open>s21 * (mined1 <= mined2)\<close>.\<close>

definition of_bool_fl :: "bool \<Rightarrow> fl" where
  "of_bool_fl c = (if c then Fin 1 else Fin 0)"

text \<open>
  The builtin \<open>min(u, w)\<close> of Python keeps its first argument unless the second one
  compares strictly smaller; \<open>np.min\<close> returns NaN as soon as one entry is NaN.
\<close>

definition py_min :: "fl \<Rightarrow> fl \<Rightarrow> fl" where
  "py_min u w = (if w < u then w else u)"

definition np_min :: "fl \<Rightarrow> fl \<Rightarrow> fl" where
  "np_min u w = (if u = NaN \<or> w = NaN then NaN else if w < u then w else u)"

datatype error =
    IndexError | ValueError | TypeError | ZeroDivisionError | LinAlgError
  | SolverError | NonFinite

section \<open>The model object\<close>

text \<open>
  The parameter dictionary \<open>params\<close> read by \<open>StructuredModel.__init__\<close>.  The
  source's \<open>z\<close> with a bar is \<open>zbar\<close>; \<open>a\<close>, \<open>b\<close>, \<open>d\<close> are \<open>pa\<close>, \<open>pb\<close>,
  \<open>pd\<close>; a 2-vector is a pair and the 2x2 matrix \<open>sigma\<close> a pair of rows.
\<close>

record params =
  alphak :: real
  alphaz :: real
  betak :: real
  betaz :: real
  sigmak :: "real \<times> real"
  sigmaz :: "real \<times> real"
  delta :: real
  rho1 :: real
  zbar :: real
  sigma :: "(real \<times> real) \<times> (real \<times> real)"
  pa :: real
  pb :: real
  pd :: real
  zl :: real
  zr :: real

text \<open>The dictionary returned by \<open>__MatchODE\<close> (the two solver objects left out).\<close>

record matchres =
  res_x :: "real list"
  res_y :: "fl list list"
  res_diff :: fl
  res_dv0 :: fl

text \<open>
  Calls of the numerical pipeline, recorded in the order they happen.  The field
  \<open>calls\<close> below is a ghost field: the program has no such attribute, the model
  appends to it at every call site so that "is not called" can be stated.
\<close>

datatype call =
    Call_CalibratingTheta fl bool
  | Call_MatchODE fl
  | Call_Distortion fl
  | Call_RelativeEntropyUS
  | Call_fsolve fl

text \<open>
  The attributes of a \<open>StructuredModel\<close> instance.  \<open>None\<close> is Python's \<open>None\<close>.
  \<open>theta\<close> is the attribute named by the Greek letter, \<open>qus\<close> the target relative
  entropy, \<open>sol\<close> the attribute \<open>v\<close>.
\<close>

record model =
  par :: params
  q0s :: real
  qus :: fl
  rho2 :: real
  gridDz :: real
  theta :: "fl option"
  status :: nat
  dvErr :: "fl option"
  qErr :: "fl option"
  dvl :: "fl option"
  dvr :: "fl option"
  hl :: "fl option"
  sol :: "matchres option"
  Distorted :: "fl list list option"
  driftk :: "fl list option"
  driftz :: "fl list option"
  calls :: "call list"

definition norm2 :: "real \<times> real \<Rightarrow> real" where
  "norm2 w = sqrt ((fst w)\<^sup>2 + (snd w)\<^sup>2)"


section \<open>Calibration of theta\<close>

text \<open>
  \<open>__MatchODE\<close> (a boundary-value solver inside a root finder), \<open>__Distortion\<close> and
  \<open>__RelativeEntropyUS\<close> as called from \<open>__CalibratingTheta\<close>, and the strategy of
  scipy's \<open>fsolve\<close>, are parameters: what is proved about the calibration holds for
  every behaviour of them, raising included.  They read only the attributes of the model
  that the calibration never writes (\<open>frame_of\<close>).  \<open>fsolve\<close> is an iteration that evaluates
  its objective at the start value, asks \<open>fs_next\<close> for the next trial point given the
  evaluations so far, and stops when \<open>fs_next\<close> says so or when \<open>maxfev\<close>
  evaluations are used up; \<open>fs_result\<close> is the estimate it returns.
\<close>

type_synonym frame = "params \<times> real \<times> real \<times> real \<times> fl option \<times> fl option"

definition frame_of :: "model \<Rightarrow> frame" where
  "frame_of m = (par m, q0s m, rho2 m, gridDz m, dvl m, dvr m)"

record numerics =
  o_MatchODE :: "frame \<Rightarrow> fl \<Rightarrow> error + matchres"
  o_Distortion :: "frame \<Rightarrow> matchres \<Rightarrow> fl \<Rightarrow> error + fl list list"
  o_RelativeEntropyUS :: "frame \<Rightarrow> fl list list \<Rightarrow> fl list list \<Rightarrow> real list \<Rightarrow> error + fl"
  fs_next :: "(fl \<times> fl) list \<Rightarrow> fl option"
  fs_result :: "(fl \<times> fl) list \<Rightarrow> fl"

definition log_call :: "call \<Rightarrow> model \<Rightarrow> model" where
  "log_call c m = m\<lparr>calls := calls m @ [c]\<rparr>"

definition CalibratingTheta ::
  "numerics \<Rightarrow> fl \<Rightarrow> bool \<Rightarrow> model \<Rightarrow> (error + fl) \<times> model" where
  "CalibratingTheta N th gridsearch m0 =
     (let m = log_call (Call_CalibratingTheta th gridsearch) m0 in
      if gridsearch then
        (let m1 = log_call (Call_MatchODE th) m in
         case o_MatchODE N (frame_of m) th of
           Inl e \<Rightarrow> (Inl e, m1)
         | Inr res \<Rightarrow>
             if Fin 1 < res_diff res then (Inr PInf, m1)
             else
               (let m2 = log_call (Call_Distortion th) m1 in
                case o_Distortion N (frame_of m) res th of
                  Inl e \<Rightarrow> (Inl e, m2)
                | Inr D \<Rightarrow>
                    (let m3 = log_call Call_RelativeEntropyUS m2 in
                     case o_RelativeEntropyUS N (frame_of m) (drop 2 D) (take 2 D) (res_x res) of
                       Inl e \<Rightarrow> (Inl e, m3)
                     | Inr q \<Rightarrow> (Inr (q - qus m3), m3))))
      else
        (let m1 = log_call (Call_MatchODE th) m in
         case o_MatchODE N (frame_of m) th of
           Inl e \<Rightarrow> (Inl e, m1)
         | Inr res \<Rightarrow>
             (let m2 = log_call (Call_Distortion th) (m1\<lparr>dvErr := Some (res_diff res)\<rparr>) in
              case o_Distortion N (frame_of m) res th of
                Inl e \<Rightarrow> (Inl e, m2)
              | Inr D \<Rightarrow>
                  (let m3 = log_call Call_RelativeEntropyUS m2 in
                   case o_RelativeEntropyUS N (frame_of m) (drop 2 D) (take 2 D) (res_x res) of
                     Inl e \<Rightarrow> (Inl e, m3)
                   | Inr q \<Rightarrow> (Inr (q - qus m3), m3\<lparr>qErr := Some (q - qus m3)\<rparr>)))))"

fun fsolve_loop ::
  "numerics \<Rightarrow> (fl \<Rightarrow> model \<Rightarrow> (error + fl) \<times> model) \<Rightarrow> nat \<Rightarrow> (fl \<times> fl) list \<Rightarrow> fl
     \<Rightarrow> model \<Rightarrow> (error + fl) \<times> model" where
  "fsolve_loop N f 0 hist u m = (Inr (fs_result N hist), m)"
| "fsolve_loop N f (Suc k) hist u m =
     (case f u m of
        (Inl e, m') \<Rightarrow> (Inl e, m')
      | (Inr fu, m') \<Rightarrow>
          (case fs_next N (hist @ [(u, fu)]) of
             None \<Rightarrow> (Inr (fs_result N (hist @ [(u, fu)])), m')
           | Some u' \<Rightarrow> fsolve_loop N f k (hist @ [(u, fu)]) u' m'))"

definition fsolve ::
  "numerics \<Rightarrow> (fl \<Rightarrow> model \<Rightarrow> (error + fl) \<times> model) \<Rightarrow> fl \<Rightarrow> nat \<Rightarrow> model
     \<Rightarrow> (error + fl) \<times> model" where
  "fsolve N f u0 maxfev m = fsolve_loop N f maxfev [] u0 (log_call (Call_fsolve u0) m)"

text \<open>
  \<open>np.argmin\<close>: the index of the first NaN when there is one, of the first minimum
  otherwise; \<open>ValueError\<close> on an empty array.
\<close>

fun argmin_from :: "nat \<Rightarrow> fl \<Rightarrow> nat \<Rightarrow> fl list \<Rightarrow> nat" where
  "argmin_from bi bv i [] = bi"
| "argmin_from bi bv i (u # us) =
     (if bv = NaN then bi
      else if u = NaN \<or> u < bv then argmin_from i u (Suc i) us
      else argmin_from bi bv (Suc i) us)"

definition argmin :: "fl list \<Rightarrow> error + nat" where
  "argmin us = (case us of [] \<Rightarrow> Inl ValueError | u # us' \<Rightarrow> Inr (argmin_from 0 u 1 us'))"

definition thetalist :: "fl list" where
  "thetalist = [Fin (1/10), Fin (2/10), Fin (3/10), Fin (4/10), Fin (6/10), Fin (8/10),
                Fin 1, Fin (12/10)]"

text \<open>The loop \<open>for theta in thetalist: values.append(...)\<close>.\<close>

fun gridsearch_loop ::
  "numerics \<Rightarrow> fl list \<Rightarrow> fl list \<Rightarrow> model \<Rightarrow> (error + fl list) \<times> model" where
  "gridsearch_loop N [] vals m = (Inr vals, m)"
| "gridsearch_loop N (t # ts) vals m =
     (case CalibratingTheta N t True m of
        (Inl e, m') \<Rightarrow> (Inl e, m')
      | (Inr w, m') \<Rightarrow> gridsearch_loop N ts (vals @ [w]) m')"

text \<open>
  \<open>solvetheta\<close>.  The final test \<open>self.qErr < 1e-2 and self.dvErr < 1e-4\<close> raises
  \<open>TypeError\<close> on \<open>None\<close> and evaluates its second operand only when the first holds.
\<close>

definition solvetheta :: "numerics \<Rightarrow> model \<Rightarrow> (error + unit) \<times> model" where
  "solvetheta N m =
     (if qus m = PInf then (Inr (), m\<lparr>theta := Some PInf, status := 1\<rparr>)
      else
        (case gridsearch_loop N thetalist [] m of
           (Inl e, m1) \<Rightarrow> (Inl e, m1)
         | (Inr vals, m1) \<Rightarrow>
             (case argmin (map abs vals) of
                Inl e \<Rightarrow> (Inl e, m1)
              | Inr minIdx \<Rightarrow>
                  if length thetalist \<le> minIdx then (Inl IndexError, m1)
                  else
                    (case fsolve N (\<lambda>u. CalibratingTheta N u False) (thetalist ! minIdx) 20 m1 of
                       (Inl e, m2) \<Rightarrow> (Inl e, m2)
                     | (Inr th, m2) \<Rightarrow>
                         (let m3 = m2\<lparr>theta := Some th\<rparr> in
                          case qErr m3 of
                            None \<Rightarrow> (Inl TypeError, m3)
                          | Some q \<Rightarrow>
                              if q < Fin (1/100) then
                                (case dvErr m3 of
                                   None \<Rightarrow> (Inl TypeError, m3)
                                 | Some dv \<Rightarrow>
                                     if dv < Fin (1/10000) then (Inr (), m3\<lparr>status := 1\<rparr>)
                                     else (Inr (), m3))
                              else (Inr (), m3))))))"

section \<open>The quadratic control minimizer and the HJB right-hand side\<close>

text \<open>
  A numpy argument is a scalar or a one-dimensional array.
\<close>

datatype pynum = Scalar fl | Array "fl list"

text \<open>
  \<open>__S1\<close> at one point: the discriminant \<open>B ** 2 - 4 * A * C\<close>, then the root
  \<open>(-B - sqrt(...)) / (2 * A)\<close>.
\<close>

definition S1_disc :: "model \<Rightarrow> fl \<Rightarrow> fl \<Rightarrow> fl" where
  "S1_disc m s2 z =
     (let A = Fin (1/2) * Fin (pa (par m));
          B = Fin (pb (par m)) * s2;
          C = Fin (1/2) * Fin (pd (par m)) * sq s2
              + (Fin (rho1 (par m)) + Fin (rho2 m) * (z - Fin (zbar (par m)))) * s2
              + (Fin (rho1 (par m)) + Fin (rho2 m) * (z - Fin (zbar (par m))))
                * (Fin (alphaz (par m)) - Fin (betaz (par m)) * (z - Fin (zbar (par m))))
              + sq (Fin (norm2 (sigmaz (par m)))) / Fin 2 * Fin (rho2 m)
              - sq (Fin (q0s m)) / Fin 2
      in sq B - Fin 4 * A * C)"

definition S1 :: "model \<Rightarrow> fl \<Rightarrow> fl \<Rightarrow> fl" where
  "S1 m s2 z =
     (let A = Fin (1/2) * Fin (pa (par m));
          B = Fin (pb (par m)) * s2
      in (- B - fsqrt (S1_disc m s2 z)) / (Fin 2 * A))"

text \<open>\<open>__mined\<close> at one point \<open>(z, dv)\<close>: the coefficients \<open>AA\<close>, \<open>BB\<close>, \<open>CC\<close>.\<close>

definition mined_quad :: "model \<Rightarrow> fl \<Rightarrow> fl \<Rightarrow> fl \<times> fl \<times> fl" where
  "mined_quad m z dv =
     (let A = Fin (1/2) * Fin (pa (par m));
          C0 = (Fin (rho1 (par m)) + Fin (rho2 m) * (z - Fin (zbar (par m))))
                 * (Fin (alphaz (par m)) - Fin (betaz (par m)) * (z - Fin (zbar (par m))))
               + sq (Fin (norm2 (sigmaz (par m)))) / Fin 2 * Fin (rho2 m)
               - sq (Fin (q0s m)) / Fin 2;
          C1 = Fin (rho1 (par m)) + Fin (rho2 m) * (z - Fin (zbar (par m)));
          C2 = Fin (1/2) * Fin (pd (par m));
          D = sq (Fin (pb (par m))) / (Fin 2 * A) - Fin 2 * C2;
          E = sq (Fin 100 * dv - Fin (pb (par m)) / (Fin 2 * A));
          AA = E * sq (Fin (pb (par m))) - Fin 4 * A * E * C2 - sq D;
          BB = Fin 2 * C1 * D - Fin 4 * A * E * C1;
          CC = - (Fin 4) * A * C0 * E - sq C1
      in (AA, BB, CC))"

definition mined_disc :: "model \<Rightarrow> fl \<Rightarrow> fl \<Rightarrow> fl" where
  "mined_disc m z dv = (case mined_quad m z dv of (AA, BB, CC) \<Rightarrow> sq BB - Fin 4 * AA * CC)"

definition s21 :: "model \<Rightarrow> fl \<Rightarrow> fl \<Rightarrow> fl" where
  "s21 m z dv =
     (case mined_quad m z dv of
        (AA, BB, CC) \<Rightarrow> (- BB + fsqrt (mined_disc m z dv)) / (Fin 2 * AA))"

definition s22 :: "model \<Rightarrow> fl \<Rightarrow> fl \<Rightarrow> fl" where
  "s22 m z dv =
     (case mined_quad m z dv of
        (AA, BB, CC) \<Rightarrow> (- BB - fsqrt (mined_disc m z dv)) / (Fin 2 * AA))"

text \<open>The objective of one branch, given its root \<open>s2\<close> (\<open>mined1\<close> and \<open>mined2\<close>).\<close>

definition mined_obj :: "model \<Rightarrow> fl \<Rightarrow> fl \<Rightarrow> fl \<Rightarrow> fl" where
  "mined_obj m z dv s2 =
     Fin (1/100) * (Fin (alphak (par m)) + Fin (betak (par m)) * (z - Fin (zbar (par m)))
                    + S1 m s2 z)
     + dv * (Fin (alphaz (par m)) - Fin (betaz (par m)) * (z - Fin (zbar (par m))) + s2)"

definition mined1 :: "model \<Rightarrow> fl \<Rightarrow> fl \<Rightarrow> fl" where
  "mined1 m z dv = mined_obj m z dv (s21 m z dv)"

definition mined2 :: "model \<Rightarrow> fl \<Rightarrow> fl \<Rightarrow> fl" where
  "mined2 m z dv = mined_obj m z dv (s22 m z dv)"

text \<open>
  What \<open>__mined\<close> returns: the tuple \<open>(res, control)\<close> of its first \<open>return\<close>, or
  the bare array \<open>res\<close> of its second one.
\<close>

datatype mined_ret = Ret_tuple fl fl | Ret_array "fl list"

text \<open>
  \<open>__mined\<close>.  The expressions are elementwise, so \<open>mined1\<close> is a float exactly when
  both arguments are scalars; that is the case the \<open>isinstance\<close> test selects.  Two
  arrays are combined index by index; arrays of different lengths (neither of length 1)
  do not broadcast.
\<close>

definition mined :: "model \<Rightarrow> pynum \<Rightarrow> pynum \<Rightarrow> error + mined_ret" where
  "mined m z dv =
     (case (z, dv) of
        (Scalar z0, Scalar dv0) \<Rightarrow>
          Inr (Ret_tuple (py_min (mined1 m z0 dv0) (mined2 m z0 dv0))
                 (s21 m z0 dv0 * of_bool_fl (mined1 m z0 dv0 \<le> mined2 m z0 dv0)
                  + s22 m z0 dv0 * of_bool_fl (mined2 m z0 dv0 < mined1 m z0 dv0)))
      | (Scalar z0, Array dvs) \<Rightarrow>
          Inr (Ret_array (map (\<lambda>dv0. np_min (mined1 m z0 dv0) (mined2 m z0 dv0)) dvs))
      | (Array zs, Scalar dv0) \<Rightarrow>
          Inr (Ret_array (map (\<lambda>z0. np_min (mined1 m z0 dv0) (mined2 m z0 dv0)) zs))
      | (Array zs, Array dvs) \<Rightarrow>
          if length zs = length dvs then
            Inr (Ret_array (map (\<lambda>(z0, dv0). np_min (mined1 m z0 dv0) (mined2 m z0 dv0))
                              (zip zs dvs)))
          else if length zs = 1 then
            Inr (Ret_array (map (\<lambda>dv0. np_min (mined1 m (hd zs) dv0) (mined2 m (hd zs) dv0)) dvs))
          else if length dvs = 1 then
            Inr (Ret_array (map (\<lambda>z0. np_min (mined1 m z0 (hd dvs)) (mined2 m z0 (hd dvs))) zs))
          else Inl ValueError)"

text \<open>
  The quadratic form
  \<open>np.array([0.01, v1]).dot(sigma).dot(sigma.T).dot(np.array([[0.01],[v1]]))\<close>.
\<close>

definition quadform :: "model \<Rightarrow> fl \<Rightarrow> fl" where
  "quadform m v1 =
     (case sigma (par m) of
        ((s00, s01), (s10, s11)) \<Rightarrow>
          (let w0 = Fin (1/100) * Fin s00 + v1 * Fin s10;
               w1 = Fin (1/100) * Fin s01 + v1 * Fin s11;
               u0 = w0 * Fin s00 + w1 * Fin s01;
               u1 = w0 * Fin s10 + w1 * Fin s11
           in u0 * Fin (1/100) + u1 * v1))"

text \<open>
  The second row of what \<open>__HJBODE\<close> returns, at one point:
  \<open>2 / norm(sigmaz) ** 2 * (delta * v0 - min_val + 1 / (2 * theta) * temp)\<close>.
\<close>

definition hjb_rhs :: "model \<Rightarrow> fl \<Rightarrow> fl \<Rightarrow> fl \<Rightarrow> fl \<Rightarrow> fl" where
  "hjb_rhs m th v0 v1 min_val =
     Fin 2 / sq (Fin (norm2 (sigmaz (par m))))
       * (Fin (delta (par m)) * v0 - min_val + Fin 1 / (Fin 2 * th) * quadform m v1)"

text \<open>
  The argument \<open>v\<close> of \<open>__HJBODE\<close>: an array of shape (2,), or one of shape (2, n)
  given by its two rows.
\<close>

datatype ode_state = Point fl fl | Mesh "fl list" "fl list"

text \<open>
  \<open>__HJBODE\<close>, returning the two rows of the stacked result.  With a float \<open>v1\<close>
  it unpacks the tuple returned by \<open>__mined\<close>; with an array \<open>v1\<close> it uses the bare
  array.  Shapes that numpy cannot stack or unpack are \<open>ValueError\<close>.
\<close>

definition HJBODE :: "model \<Rightarrow> pynum \<Rightarrow> ode_state \<Rightarrow> fl \<Rightarrow> error + fl list \<times> fl list" where
  "HJBODE m z v th =
     (case v of
        Point v0 v1 \<Rightarrow>
          (case mined m z (Scalar v1) of
             Inl e \<Rightarrow> Inl e
           | Inr (Ret_tuple min_val ctl) \<Rightarrow> Inr ([v1], [hjb_rhs m th v0 v1 min_val])
           | Inr (Ret_array rs) \<Rightarrow>
               if length rs = 2 then Inr ([v1], [hjb_rhs m th v0 v1 (rs ! 0)])
               else Inl ValueError)
      | Mesh v0s v1s \<Rightarrow>
          (case mined m z (Array v1s) of
             Inl e \<Rightarrow> Inl e
           | Inr (Ret_tuple min_val ctl) \<Rightarrow> Inl TypeError
           | Inr (Ret_array rs) \<Rightarrow>
               if length v0s = length v1s \<and> length rs = length v1s then
                 Inr (v1s, map (\<lambda>(v0, v1, r). hjb_rhs m th v0 v1 r) (zip v0s (zip v1s rs)))
               else Inl ValueError))"

section \<open>Derived drifts\<close>

text \<open>
  A two-dimensional array is the list of its rows; \<open>rect n rows\<close> says that every row has
  \<open>n\<close> entries.  Elementwise arithmetic on two one-dimensional arrays needs equal lengths
  or one array of length 1 (numpy's broadcasting); anything else is \<open>ValueError\<close>.
\<close>

definition rect :: "nat \<Rightarrow> 'a list list \<Rightarrow> bool" where
  "rect n rows = (\<forall>r \<in> set rows. length r = n)"

definition bcast2 :: "(fl \<Rightarrow> fl \<Rightarrow> fl) \<Rightarrow> fl list \<Rightarrow> fl list \<Rightarrow> error + fl list" where
  "bcast2 f us ws =
     (if length us = length ws then Inr (map (\<lambda>(u, w). f u w) (zip us ws))
      else if length us = 1 then Inr (map (f (hd us)) ws)
      else if length ws = 1 then Inr (map (\<lambda>u. f u (hd ws)) us)
      else Inl ValueError)"

text \<open>
  Row \<open>i\<close> of \<open>self.sigma.dot(self.Distorted[2:,:])\<close>, where \<open>srow\<close> is row \<open>i\<close> of
  \<open>sigma\<close>: the slice must have exactly two rows.
\<close>

definition drift_row :: "real \<times> real \<Rightarrow> fl list list \<Rightarrow> error + fl list" where
  "drift_row srow Dst =
     (case drop 2 Dst of
        [h1, h2] \<Rightarrow>
          if length h1 = length h2
          then Inr (map (\<lambda>(u, w). Fin (fst srow) * u + Fin (snd srow) * w) (zip h1 h2))
          else Inl ValueError
      | _ \<Rightarrow> Inl ValueError)"

text \<open>
  One pass of the loop of \<open>UpdatingDrift\<close>: \<open>temp = self.__HJBODE(x[j], y[:,j], theta)\<close>
  and \<open>d2v[j] = temp[1]\<close>.
\<close>

definition d2v_at :: "model \<Rightarrow> real list \<Rightarrow> fl list list \<Rightarrow> fl option \<Rightarrow> nat \<Rightarrow> error + fl" where
  "d2v_at m xs ys th j =
     (if ys = [] \<or> length (hd ys) \<le> j \<or> length ys < 2 then Inl IndexError
      else
        (case th of
           None \<Rightarrow> Inl TypeError
         | Some t \<Rightarrow>
             (case HJBODE m (Scalar (Fin (xs ! j))) (Point (ys ! 0 ! j) (ys ! 1 ! j)) t of
                Inl e \<Rightarrow> Inl e
              | Inr (row0, row1) \<Rightarrow> (case row1 of [w] \<Rightarrow> Inr w | _ \<Rightarrow> Inl ValueError))))"

fun d2v_loop ::
  "model \<Rightarrow> real list \<Rightarrow> fl list list \<Rightarrow> fl option \<Rightarrow> nat list \<Rightarrow> error + fl list" where
  "d2v_loop m xs ys th [] = Inr []"
| "d2v_loop m xs ys th (j # js) =
     (case d2v_at m xs ys th j of
        Inl e \<Rightarrow> Inl e
      | Inr w \<Rightarrow>
          (case d2v_loop m xs ys th js of
             Inl e \<Rightarrow> Inl e
           | Inr ws \<Rightarrow> Inr (w # ws)))"

text \<open>
  \<open>UpdatingDrift\<close>.  The attributes are written in the order of the source, so a failure
  leaves the earlier assignments in place.
\<close>

definition UpdatingDrift :: "model \<Rightarrow> (error + unit) \<times> model" where
  "UpdatingDrift m =
     (case Distorted m of
        None \<Rightarrow> (Inl TypeError, m)
      | Some Dst \<Rightarrow>
          (case drift_row (fst (sigma (par m))) Dst of
             Inl e \<Rightarrow> (Inl e, m)
           | Inr drift0 \<Rightarrow>
          (case drift_row (snd (sigma (par m))) Dst of
             Inl e \<Rightarrow> (Inl e, m)
           | Inr drift1 \<Rightarrow>
          (case sol m of
             None \<Rightarrow> (Inl TypeError, m)
           | Some v \<Rightarrow>
          (case bcast2 (\<lambda>u w. u + Fin (alphak (par m)) + w) drift0
                  (map (\<lambda>xj. Fin (betak (par m)) * (Fin xj - Fin (zbar (par m)))) (res_x v)) of
             Inl e \<Rightarrow> (Inl e, m)
           | Inr dk \<Rightarrow>
          (let m1 = m\<lparr>driftk := Some dk\<rparr> in
           case bcast2 (\<lambda>u w. u + Fin (alphaz (par m)) - w) drift1
                  (map (\<lambda>xj. Fin (betaz (par m)) * (Fin xj - Fin (zbar (par m)))) (res_x v)) of
             Inl e \<Rightarrow> (Inl e, m1)
           | Inr dz \<Rightarrow>
          (let m2 = m1\<lparr>driftz := Some dz\<rparr> in
           case d2v_loop m2 (res_x v) (res_y v) (theta m2) [0 ..< length (res_x v)] of
             Inl e \<Rightarrow> (Inl e, m2)
           | Inr d2v \<Rightarrow>
               if rect (length d2v) (take 2 (res_y v))
               then (Inr (), m2\<lparr>sol := Some (v\<lparr>res_y := take 2 (res_y v) @ [d2v]\<rparr>)\<rparr>)
               else (Inl ValueError, m2))))))))"

text \<open>
  The first statements of \<open>ExpectH\<close>: the drift field \<open>muz\<close> that it passes to
  \<open>FeynmanKac\<close>, \<open>drift[1,:] + alphaz - betaz * x\<close>.
\<close>

definition ExpectH_muz :: "model \<Rightarrow> error + fl list" where
  "ExpectH_muz m =
     (case Distorted m of
        None \<Rightarrow> Inl TypeError
      | Some Dst \<Rightarrow>
          (case drift_row (snd (sigma (par m))) Dst of
             Inl e \<Rightarrow> Inl e
           | Inr drift1 \<Rightarrow>
               (case sol m of
                  None \<Rightarrow> Inl TypeError
                | Some v \<Rightarrow>
                    bcast2 (\<lambda>u w. u + Fin (alphaz (par m)) - w) drift1
                      (map (\<lambda>xj. Fin (betaz (par m)) * Fin xj) (res_x v)))))"

text \<open>
  The value that the loop of \<open>UpdatingDrift\<close> stores in \<open>d2v[j]\<close>: the second row of
  the scalar \<open>__HJBODE\<close> at grid point \<open>j\<close>, from the stored value and first derivative.
\<close>

definition d2v_value :: "model \<Rightarrow> fl \<Rightarrow> real list \<Rightarrow> fl list list \<Rightarrow> nat \<Rightarrow> fl" where
  "d2v_value m t xs ys j =
     hjb_rhs m t (ys ! 0 ! j) (ys ! 1 ! j)
       (py_min (mined1 m (Fin (xs ! j)) (ys ! 1 ! j)) (mined2 m (Fin (xs ! j)) (ys ! 1 ! j)))"

section \<open>The canonical state grid\<close>



section \<open>Linear systems\<close>

text \<open>
  \<open>np.linalg.solve(A, b)\<close> for a square \<open>A\<close>: elimination with partial pivoting (the
  row with the largest leading entry in absolute value is the pivot row), in exact
  arithmetic; a zero pivot is the \<open>LinAlgError\<close> of a singular matrix.  A row of the
  augmented system is the pair of its coefficients and its right-hand side.
\<close>

type_synonym aug = "real list \<times> real"

definition lead :: "real list \<Rightarrow> real" where
  "lead r = (case r of [] \<Rightarrow> 0 | a # _ \<Rightarrow> a)"

fun pick :: "aug \<Rightarrow> aug list \<Rightarrow> aug \<times> aug list" where
  "pick best [] = (best, [])"
| "pick best (r # rs) =
     (if \<bar>lead (fst best)\<bar> < \<bar>lead (fst r)\<bar>
      then (case pick r rs of (p, os) \<Rightarrow> (p, best # os))
      else (case pick best rs of (p, os) \<Rightarrow> (p, r # os)))"

definition dot :: "real list \<Rightarrow> real list \<Rightarrow> real" where
  "dot us ws = sum_list (map (\<lambda>(u, w). u * w) (zip us ws))"

definition eliminate :: "aug \<Rightarrow> aug \<Rightarrow> aug" where
  "eliminate p r =
     (let f = lead (fst r) / lead (fst p)
      in (map (\<lambda>(u, w). u - f * w) (zip (tl (fst r)) (tl (fst p))), snd r - f * snd p))"

fun gauss :: "nat \<Rightarrow> aug list \<Rightarrow> real list option" where
  "gauss 0 rows = Some []"
| "gauss (Suc n) rows =
     (case rows of
        [] \<Rightarrow> None
      | r # rs \<Rightarrow>
          (case pick r rs of
             (p, os) \<Rightarrow>
               if lead (fst p) = 0 then None
               else
                 (case gauss n (map (eliminate p) os) of
                    None \<Rightarrow> None
                  | Some xs \<Rightarrow> Some ((snd p - dot (tl (fst p)) xs) / lead (fst p) # xs))))"

definition solve :: "real list list \<Rightarrow> real list \<Rightarrow> error + real list" where
  "solve A b =
     (if \<not> rect (length A) A then Inl LinAlgError
      else if length b \<noteq> length A then Inl ValueError
      else (case gauss (length A) (zip A b) of None \<Rightarrow> Inl LinAlgError | Some xs \<Rightarrow> Inr xs))"

section \<open>Relative entropy\<close>

text \<open>
  The drift \<open>sigmaz.T.dot(eta_u[:,j]) + alphaz - betaz * zgrid[j]\<close> at grid point \<open>j\<close>,
  and row \<open>j\<close> of the matrix \<open>Q\<close> that the loop of \<open>__RelativeEntropyUS\<close> fills
  (\<open>n2\<close> is \<open>norm(sigmaz) ** 2\<close>, \<open>Dz\<close> the attribute \<open>self.Dz\<close>).
\<close>

definition re_drift :: "model \<Rightarrow> real list list \<Rightarrow> real list \<Rightarrow> nat \<Rightarrow> real" where
  "re_drift m hu zgrid j =
     fst (sigmaz (par m)) * (hu ! 0 ! j) + snd (sigmaz (par m)) * (hu ! 1 ! j)
     + alphaz (par m) - betaz (par m) * (zgrid ! j)"

definition Q_row :: "model \<Rightarrow> real list list \<Rightarrow> real list \<Rightarrow> nat \<Rightarrow> real list" where
  "Q_row m hu zgrid j =
     (let Nz = length zgrid; Dz = gridDz m; n2 = (norm2 (sigmaz (par m)))\<^sup>2;
          u = re_drift m hu zgrid j;
          zero = replicate Nz 0
      in if j = 0 then
           zero[0 := u / Dz - 0.5 * n2 / Dz\<^sup>2,
                1 := - u / Dz + n2 / Dz\<^sup>2,
                2 := - 0.5 * n2 / Dz\<^sup>2]
         else if j = Nz - 1 then
           zero[j := - u / Dz - 0.5 * n2 / Dz\<^sup>2,
                j - 1 := u / Dz + n2 / Dz\<^sup>2,
                j - 2 := - 0.5 * n2 / Dz\<^sup>2]
         else
           zero[j - 1 := u / (2 * Dz) - 0.5 * n2 / Dz\<^sup>2,
                j := n2 / Dz\<^sup>2,
                j + 1 := - u / (2 * Dz) - 0.5 * n2 / Dz\<^sup>2])"

text \<open>
  \<open>__RelativeEntropyUS\<close> on finite values.  The array arguments have two rows over the
  grid.  A grid of one or two points fails at \<open>Q[0, 1]\<close> or \<open>Q[0, 2]\<close>.  The columns
  where \<open>zgrid == zbar\<close> are overwritten with ones, the system is solved, and the
  square roots of twice the solution at those columns are returned; values that numpy
  would make infinite or NaN (a zero \<open>Dz\<close>, a negative solution) end the model with
  \<open>NonFinite\<close>.
\<close>

definition RelativeEntropyUS ::
  "model \<Rightarrow> real list list \<Rightarrow> real list list \<Rightarrow> real list \<Rightarrow> error + real list" where
  "RelativeEntropyUS m hu hs zgrid =
     (let Nz = length zgrid in
      if length hu \<noteq> 2 \<or> length hs \<noteq> 2 \<or> \<not> rect Nz hu \<or> \<not> rect Nz hs then Inl ValueError
      else if Nz = 0 then Inr []
      else if Nz < 3 then Inl IndexError
      else if gridDz m = 0 then Inl NonFinite
      else
        (let Q = map (Q_row m hu zgrid) [0 ..< Nz];
             rhs = map (\<lambda>j. ((hu ! 0 ! j - hs ! 0 ! j)\<^sup>2 + (hu ! 1 ! j - hs ! 1 ! j)\<^sup>2) / 2)
                       [0 ..< Nz];
             lhs = map (\<lambda>row. map (\<lambda>(z, c). if z = zbar (par m) then 1 else c) (zip zgrid row)) Q
         in case solve lhs rhs of
              Inl e \<Rightarrow> Inl e
            | Inr sl \<Rightarrow>
                (let picked = map snd (filter (\<lambda>(z, w). z = zbar (par m)) (zip zgrid sl))
                 in if \<exists>w \<in> set picked. w * 2 < 0 then Inl NonFinite
                    else Inr (map (\<lambda>w. sqrt (w * 2)) picked))))"

section \<open>Concrete instances\<close>

text \<open>The module-level default parameter dictionary.\<close>

definition default_params :: params where
  "default_params =
     \<lparr> alphak = 484 / 1000, alphaz = 0, betak = 1, betaz = 14 / 1000,
       sigmak = (477 / 1000, 0), sigmaz = (11 / 1000, 25 / 1000),
       delta = 2 / 1000, rho1 = 0, zbar = 0 / (14 / 1000),
       sigma = ((477 / 1000, 0), (11 / 1000, 25 / 1000)),
       pa = ((11 / 1000)\<^sup>2 + (25 / 1000)\<^sup>2) / (477 / 1000 * (25 / 1000))\<^sup>2,
       pb = - (477 / 1000 * (11 / 1000)) / (477 / 1000 * (25 / 1000))\<^sup>2,
       pd = (477 / 1000)\<^sup>2 / (477 / 1000 * (25 / 1000))\<^sup>2,
       zl = - 25 / 10, zr = 25 / 10 \<rparr>"

text \<open>A fresh model, as \<open>__init__\<close> leaves it, with a target entropy to be chosen.\<close>

definition fresh_model :: "fl \<Rightarrow> model" where
  "fresh_model qu =
     \<lparr> par = default_params, q0s = 5 / 100, qus = qu, rho2 = 1, gridDz = 1 / 100,
       theta = None, status = 0, dvErr = None, qErr = None,
       dvl = None, dvr = None, hl = None,
       sol = None, Distorted = None, driftk = None, driftz = None,
       calls = [] \<rparr>"

text \<open>
  A numerical pipeline whose kink residual is \<open>dres\<close> and whose implied entropy is
  \<open>q\<close> at every theta, with a root finder that stops after its first evaluation.
\<close>

definition const_numerics :: "fl \<Rightarrow> fl \<Rightarrow> numerics" where
  "const_numerics dres q =
     \<lparr> o_MatchODE = (\<lambda>fr th. Inr \<lparr> res_x = [], res_y = [], res_diff = dres, res_dv0 = Fin 0 \<rparr>),
       o_Distortion = (\<lambda>fr res th. Inr []),
       o_RelativeEntropyUS = (\<lambda>fr hu hs zs. Inr q),
       fs_next = (\<lambda>hist. None),
       fs_result = (\<lambda>hist. case hist of [] \<Rightarrow> NaN | h # hs \<Rightarrow> fst (last (h # hs))) \<rparr>"

text \<open>
  A small model for evaluating the minimizer: identity volatility matrix (so \<open>a = d = 1\<close>,
  \<open>b = 0\<close>), mean zero, with the deviation bound \<open>q\<close> and the weight \<open>r\<close> to be
  chosen.
\<close>

definition toy_params :: params where
  "toy_params =
     \<lparr> alphak = 0, alphaz = 0, betak = 1, betaz = 1,
       sigmak = (1, 0), sigmaz = (0, 1), delta = 1, rho1 = 0, zbar = 0,
       sigma = ((1, 0), (0, 1)), pa = 1, pb = 0, pd = 1, zl = - 25 / 10, zr = 25 / 10 \<rparr>"

definition toy_model :: "real \<Rightarrow> real \<Rightarrow> model" where
  "toy_model q r =
     \<lparr> par = toy_params, q0s = q, qus = Fin (1/10), rho2 = r, gridDz = 1 / 100,
       theta = Some (Fin 1), status = 0, dvErr = None, qErr = None,
       dvl = None, dvr = None, hl = None,
       sol = None, Distorted = None, driftk = None, driftz = None,
       calls = [] \<rparr>"

text \<open>
  A solved small model on the two-point grid \<open>[0, 1]\<close> with mean-reversion point \<open>zb\<close>:
  a matched solution of two rows and a distortion array of four rows.
\<close>

definition toy_sol :: matchres where
  "toy_sol = \<lparr> res_x = [0, 1], res_y = [[Fin 1, Fin 2], [Fin (1/100), Fin (1/100)]],
               res_diff = Fin 0, res_dv0 = Fin (1/100) \<rparr>"

definition toy_H :: "real list list" where
  "toy_H = [[0, 0], [0, 0], [1, 2], [3, 4]]"

definition toy_solved :: "real \<Rightarrow> model" where
  "toy_solved zb =
     \<lparr> par = toy_params\<lparr>zbar := zb\<rparr>, q0s = 2, qus = Fin (1/10), rho2 = 2, gridDz = 1 / 100,
       theta = Some (Fin 1), status = 1, dvErr = Some (Fin 0), qErr = Some (Fin 0),
       dvl = None, dvr = None, hl = None,
       sol = Some toy_sol, Distorted = Some (map (map Fin) toy_H),
       driftk = None, driftz = None, calls = [] \<rparr>"




text \<open>
  A three-point grid around \<open>zbar = 0\<close> with spacing \<open>Dz\<close>, the zero distortion field,
  and a distortion field that cancels the baseline drift at the first two grid points.
\<close>

definition grid3 :: "real list" where
  "grid3 = [- 1 / 100, 0, 1 / 100]"

definition eta_zero :: "real list list" where
  "eta_zero = [[0, 0, 0], [0, 0, 0]]"

definition eta_cancel :: "real list list" where
  "eta_cancel = [[0, 0, 0], [- 1 / 100, 0, 0]]"

section \<open>Verified properties\<close>

subsection \<open>The calibration state machine\<close>

lemma status_log_call [simp]: "status (log_call c m) = status m"
  by (simp add: log_call_def)

lemma CalibratingTheta_status: "status (snd (CalibratingTheta N th g m)) = status m"
  by (simp add: CalibratingTheta_def Let_def split: sum.splits)

lemma CalibratingTheta_refine_records:
  "CalibratingTheta N th False m = (Inr w, m') \<Longrightarrow> qErr m' \<noteq> None \<and> dvErr m' \<noteq> None"
  by (auto simp add: CalibratingTheta_def Let_def log_call_def split: sum.splits)

lemma gridsearch_loop_status: "status (snd (gridsearch_loop N ts vals m)) = status m"
proof (induction ts arbitrary: vals m)
  case Nil
  then show ?case by simp
next
  case (Cons t ts)
  show ?case
  proof (cases "CalibratingTheta N t True m")
    case (Pair r m')
    have s: "status m' = status m"
      using CalibratingTheta_status [of N t True m] Pair by simp
    show ?thesis
    proof (cases r)
      case (Inl e)
      with Pair s show ?thesis by simp
    next
      case (Inr w)
      with Pair s Cons.IH [of "vals @ [w]" m'] show ?thesis by simp
    qed
  qed
qed

lemma fsolve_loop_status:
  assumes "\<And>u m. status (snd (f u m)) = status m"
  shows "status (snd (fsolve_loop N f k hist u m)) = status m"
proof (induction k arbitrary: hist u m)
  case 0
  then show ?case by simp
next
  case (Suc k)
  show ?case
  proof (cases "f u m")
    case (Pair r m')
    have s: "status m' = status m" using assms [of u m] Pair by simp
    show ?thesis
    proof (cases r)
      case (Inl e)
      with Pair s show ?thesis by simp
    next
      case (Inr fu)
      with Pair s Suc.IH show ?thesis by (simp split: option.splits)
    qed
  qed
qed

lemma fsolve_loop_post:
  assumes "\<And>u m w m'. f u m = (Inr w, m') \<Longrightarrow> P m'"
    and "fsolve_loop N f (Suc k) hist u m = (Inr th, m')"
  shows "P m'"
  using assms(2)
proof (induction k arbitrary: hist u m)
  case 0
  then show ?case
    by (auto split: prod.splits sum.splits option.splits dest: assms(1))
next
  case (Suc k)
  obtain r m1 where f1: "f u m = (r, m1)" by (cases "f u m")
  show ?case
  proof (cases r)
    case (Inl e)
    with f1 Suc.prems show ?thesis by simp
  next
    case (Inr fu)
    show ?thesis
    proof (cases "fs_next N (hist @ [(u, fu)])")
      case None
      with f1 Inr Suc.prems have "m' = m1" by simp
      with f1 Inr assms(1) show ?thesis by blast
    next
      case (Some u')
      with f1 Inr Suc.prems
      have "fsolve_loop N f (Suc k) (hist @ [(u, fu)]) u' m1 = (Inr th, m')" by simp
      then show ?thesis by (rule Suc.IH)
    qed
  qed
qed

text \<open>
  C2.  When the target relative entropy is infinite, \<open>solvetheta\<close> sets theta to
  infinity and the status to SOLVED (1) and changes nothing else: in particular the record
  of calls is the one it started with, so neither \<open>__CalibratingTheta\<close> nor \<open>fsolve\<close>
  (nor anything below them) is called.  This holds for every numerical pipeline \<open>N\<close>.
\<close>

theorem solvetheta_infinite_target:
  "qus m = PInf \<Longrightarrow>
     solvetheta N m = (Inr (), m\<lparr>theta := Some PInf, status := 1\<rparr>) \<and>
     calls (snd (solvetheta N m)) = calls m"
  by (simp add: solvetheta_def)

theorem solvetheta_infinite_target_witness:
  "qus (fresh_model PInf) = PInf \<and>
   solvetheta (const_numerics NaN NaN) (fresh_model PInf)
     = (Inr (), (fresh_model PInf)\<lparr>theta := Some PInf, status := 1\<rparr>) \<and>
   calls (snd (solvetheta (const_numerics NaN NaN) (fresh_model PInf))) = []"
proof -
  have h: "qus (fresh_model PInf) = PInf" by (simp add: fresh_model_def)
  have c: "calls (fresh_model PInf) = []" by (simp add: fresh_model_def)
  show ?thesis
    using h c solvetheta_infinite_target [OF h, of "const_numerics NaN NaN"] by simp
qed

text \<open>With a finite target the calibration does run: the record of calls grows.\<close>

lemma solvetheta_finite_target_calls:
  "calls (snd (solvetheta (const_numerics (Fin 0) (Fin (1/10))) (fresh_model (Fin (1/10)))))
     \<noteq> []"
  by (simp add: solvetheta_def const_numerics_def fresh_model_def thetalist_def
        CalibratingTheta_def Let_def log_call_def frame_of_def argmin_def fsolve_def
        numeral_nat minus_fl_def)

text \<open>
  C1.  After \<open>solvetheta\<close> has run on an unsolved model with a target entropy other than
  infinity and has returned, the status is SOLVED (1) if and only if the recorded
  \<open>qErr\<close> is below 1e-2 and the recorded \<open>dvErr\<close> is below 1e-4; otherwise it is still
  UNSOLVED (0), although theta has been stored (and both residuals recorded).  When a
  callee raises instead, the status is still 0.
\<close>

theorem solvetheta_status:
  assumes "qus m \<noteq> PInf" and "status m = 0"
  shows "case solvetheta N m of
           (Inr u, m') \<Rightarrow>
             (status m' = 1 \<longleftrightarrow>
                (\<exists>q dv. qErr m' = Some q \<and> dvErr m' = Some dv \<and>
                        q < Fin (1/100) \<and> dv < Fin (1/10000))) \<and>
             (status m' = 0 \<or> status m' = 1) \<and>
             theta m' \<noteq> None \<and> qErr m' \<noteq> None \<and> dvErr m' \<noteq> None
         | (Inl e, m') \<Rightarrow> status m' = 0"
proof (cases "gridsearch_loop N thetalist [] m")
  case (Pair r m1)
  have s1: "status m1 = 0"
    using gridsearch_loop_status [of N thetalist "[]" m] Pair assms(2) by simp
  show ?thesis
  proof (cases r)
    case (Inl e)
    with Pair s1 assms(1) show ?thesis by (simp add: solvetheta_def)
  next
    case (Inr vals)
    show ?thesis
    proof (cases "argmin (map abs vals)")
      case (Inl e)
      with Pair Inr s1 assms(1) show ?thesis by (simp add: solvetheta_def)
    next
      case minIdx: (Inr minIdx)
      show ?thesis
      proof (cases "length thetalist \<le> minIdx")
        case True
        with Pair Inr minIdx s1 assms(1) show ?thesis by (simp add: solvetheta_def)
      next
        case False
        obtain r2 m2 where
          fs: "fsolve N (\<lambda>u. CalibratingTheta N u False) (thetalist ! minIdx) 20 m1 = (r2, m2)"
          by (cases "fsolve N (\<lambda>u. CalibratingTheta N u False) (thetalist ! minIdx) 20 m1")
        have s2: "status m2 = 0"
          using fsolve_loop_status [of "\<lambda>u. CalibratingTheta N u False" N 20 "[]"
              "thetalist ! minIdx" "log_call (Call_fsolve (thetalist ! minIdx)) m1"]
            fs s1 CalibratingTheta_status
          by (simp add: fsolve_def)
        show ?thesis
        proof (cases r2)
          case (Inl e)
          with Pair Inr minIdx False fs s2 assms(1) show ?thesis
            by (simp add: solvetheta_def)
        next
          case th: (Inr th)
          have "fsolve_loop N (\<lambda>u. CalibratingTheta N u False) (Suc 19) []
                  (thetalist ! minIdx) (log_call (Call_fsolve (thetalist ! minIdx)) m1)
                = (Inr th, m2)"
            using fs th by (simp add: fsolve_def)
          then have rec: "qErr m2 \<noteq> None \<and> dvErr m2 \<noteq> None"
            by (rule fsolve_loop_post [where P = "\<lambda>s. qErr s \<noteq> None \<and> dvErr s \<noteq> None",
                  rotated]) (rule CalibratingTheta_refine_records)
          then obtain q dv where qd: "qErr m2 = Some q" "dvErr m2 = Some dv" by auto
          with Pair Inr minIdx False fs th s2 assms(1) show ?thesis
            by (simp add: solvetheta_def Let_def)
        qed
      qed
    qed
  qed
qed

theorem solvetheta_status_witness:
  "qus (fresh_model (Fin (1/10))) \<noteq> PInf \<and> status (fresh_model (Fin (1/10))) = 0 \<and>
   (case solvetheta (const_numerics (Fin 0) (Fin (1/10))) (fresh_model (Fin (1/10))) of
      (Inr u, m') \<Rightarrow>
        status m' = 1 \<and> theta m' = Some (Fin (1/10)) \<and>
        qErr m' = Some (Fin 0) \<and> dvErr m' = Some (Fin 0)
    | (Inl e, m') \<Rightarrow> False)"
proof -
  have h1: "qus (fresh_model (Fin (1/10))) \<noteq> PInf" by (simp add: fresh_model_def)
  have h2: "status (fresh_model (Fin (1/10))) = 0" by (simp add: fresh_model_def)
  show ?thesis
    using h1 h2 solvetheta_status [OF h1 h2, of "const_numerics (Fin 0) (Fin (1/10))"]
    by (simp add: solvetheta_def const_numerics_def fresh_model_def thetalist_def
        CalibratingTheta_def Let_def log_call_def frame_of_def argmin_def fsolve_def
        numeral_nat minus_fl_def)
qed

text \<open>
  A run that stores a theta and stays UNSOLVED: the kink residual 1/2 passes the grid
  search but not the final test.
\<close>

lemma solvetheta_unsolved_example:
  "case solvetheta (const_numerics (Fin (1/2)) (Fin (1/10))) (fresh_model (Fin (1/10))) of
      (Inr u, m') \<Rightarrow>
        status m' = 0 \<and> theta m' = Some (Fin (1/10)) \<and>
        qErr m' = Some (Fin 0) \<and> dvErr m' = Some (Fin (1/2))
    | (Inl e, m') \<Rightarrow> False"
  by (simp add: solvetheta_def const_numerics_def fresh_model_def thetalist_def
        CalibratingTheta_def Let_def log_call_def frame_of_def argmin_def fsolve_def
        numeral_nat minus_fl_def)

text \<open>
  C8.  In grid-search mode, when \<open>__MatchODE\<close> returns a kink residual above 1,
  \<open>__CalibratingTheta\<close> returns infinity without raising; neither \<open>__Distortion\<close> nor
  \<open>__RelativeEntropyUS\<close> is called and no diagnostic is written.  In refinement mode the
  residual is not tested: whenever the three callees return, the entropy difference is
  computed, returned, and recorded in \<open>qErr\<close> (and the residual in \<open>dvErr\<close>).
\<close>

theorem CalibratingTheta_reject:
  "(o_MatchODE N (frame_of m) th = Inr res \<and> Fin 1 < res_diff res \<longrightarrow>
      CalibratingTheta N th True m =
        (Inr PInf, m\<lparr>calls := calls m @ [Call_CalibratingTheta th True, Call_MatchODE th]\<rparr>)) \<and>
   (o_MatchODE N (frame_of m) th = Inr res \<and>
    o_Distortion N (frame_of m) res th = Inr D \<and>
    o_RelativeEntropyUS N (frame_of m) (drop 2 D) (take 2 D) (res_x res) = Inr q \<longrightarrow>
      CalibratingTheta N th False m =
        (Inr (q - qus m),
         m\<lparr>dvErr := Some (res_diff res), qErr := Some (q - qus m),
           calls := calls m @ [Call_CalibratingTheta th False, Call_MatchODE th,
                               Call_Distortion th, Call_RelativeEntropyUS]\<rparr>))"
  by (simp add: CalibratingTheta_def Let_def log_call_def frame_of_def)

theorem CalibratingTheta_reject_witness:
  "o_MatchODE (const_numerics (Fin 2) (Fin (3/10))) (frame_of (fresh_model (Fin (1/10)))) (Fin 1)
     = Inr \<lparr> res_x = [], res_y = [], res_diff = Fin 2, res_dv0 = Fin 0 \<rparr> \<and>
   Fin 1 < Fin 2 \<and>
   o_Distortion (const_numerics (Fin 2) (Fin (3/10))) (frame_of (fresh_model (Fin (1/10))))
     \<lparr> res_x = [], res_y = [], res_diff = Fin 2, res_dv0 = Fin 0 \<rparr> (Fin 1) = Inr [] \<and>
   o_RelativeEntropyUS (const_numerics (Fin 2) (Fin (3/10)))
     (frame_of (fresh_model (Fin (1/10)))) [] [] [] = Inr (Fin (3/10)) \<and>
   fst (CalibratingTheta (const_numerics (Fin 2) (Fin (3/10))) (Fin 1) True
          (fresh_model (Fin (1/10)))) = Inr PInf \<and>
   calls (snd (CalibratingTheta (const_numerics (Fin 2) (Fin (3/10))) (Fin 1) True
          (fresh_model (Fin (1/10)))))
     = [Call_CalibratingTheta (Fin 1) True, Call_MatchODE (Fin 1)] \<and>
   fst (CalibratingTheta (const_numerics (Fin 2) (Fin (3/10))) (Fin 1) False
          (fresh_model (Fin (1/10)))) = Inr (Fin (2/10)) \<and>
   qErr (snd (CalibratingTheta (const_numerics (Fin 2) (Fin (3/10))) (Fin 1) False
          (fresh_model (Fin (1/10))))) = Some (Fin (2/10)) \<and>
   dvErr (snd (CalibratingTheta (const_numerics (Fin 2) (Fin (3/10))) (Fin 1) False
          (fresh_model (Fin (1/10))))) = Some (Fin 2)"
  using CalibratingTheta_reject [of "const_numerics (Fin 2) (Fin (3/10))"
      "fresh_model (Fin (1/10))" "Fin 1"
      "\<lparr> res_x = [], res_y = [], res_diff = Fin 2, res_dv0 = Fin 0 \<rparr>" "[]" "Fin (3/10)"]
  by (simp add: const_numerics_def fresh_model_def frame_of_def minus_fl_def)

subsection \<open>NaN propagation through the minimizer\<close>

lemma NaN_absorb [simp]:
  "u + NaN = NaN" "NaN + u = NaN" "u - NaN = NaN" "NaN - u = NaN"
  "u * NaN = NaN" "NaN * u = NaN" "u / NaN = NaN" "NaN / u = NaN"
  "- NaN = NaN" "fsqrt NaN = NaN" "sq NaN = NaN"
  by (cases u; simp add: minus_fl_def sq_def)+

lemma NaN_compare [simp]:
  "\<not> u < NaN" "\<not> NaN < u" "\<not> u \<le> NaN" "\<not> NaN \<le> u"
  by (cases u; simp)+

lemma fsqrt_neg: "u < Fin 0 \<Longrightarrow> fsqrt u = NaN"
  by (cases u) simp_all

lemma py_min_NaN_left [simp]: "py_min NaN u = NaN"
  by (simp add: py_min_def)

lemma np_min_NaN [simp]: "np_min NaN u = NaN" "np_min u NaN = NaN"
  by (simp_all add: np_min_def)

lemma S1_NaN [simp]: "S1 m NaN z = NaN"
  by (simp add: S1_def S1_disc_def Let_def)

lemma S1_disc_neg: "S1_disc m s z < Fin 0 \<Longrightarrow> S1 m s z = NaN"
  by (simp add: S1_def Let_def fsqrt_neg)

lemma mined_obj_NaN: "S1 m s z = NaN \<Longrightarrow> mined_obj m z dv s = NaN"
  by (simp add: mined_obj_def)

lemma mined_disc_neg:
  assumes "mined_disc m z dv < Fin 0"
  shows "s21 m z dv = NaN" "s22 m z dv = NaN"
  using assms by (simp_all add: s21_def s22_def fsqrt_neg split: prod.splits)

lemma hjb_rhs_NaN [simp]: "hjb_rhs m th v0 v1 NaN = NaN"
  by (simp add: hjb_rhs_def)


text \<open>
  \<open>np.sqrt\<close> turns a negative discriminant into NaN.  When it is the discriminant of
  \<open>__mined\<close>, or that of \<open>__S1\<close> at the first root \<open>s21\<close>, the first branch objective
  is NaN; the builtin \<open>min\<close> of the scalar path keeps its first argument, so the
  minimizer returns NaN and \<open>__HJBODE\<close> passes it on.
\<close>

lemma negative_discriminant_first_branch:
  assumes "mined_disc m z dv < Fin 0 \<or> S1_disc m (s21 m z dv) z < Fin 0"
  shows "mined1 m z dv = NaN"
    and "\<exists>ctl. mined m (Scalar z) (Scalar dv) = Inr (Ret_tuple NaN ctl)"
    and "HJBODE m (Scalar z) (Point v0 dv) th = Inr ([dv], [NaN])"
proof -
  show 1: "mined1 m z dv = NaN"
    using assms by (auto simp add: mined1_def mined_disc_neg S1_disc_neg mined_obj_NaN)
  show "\<exists>ctl. mined m (Scalar z) (Scalar dv) = Inr (Ret_tuple NaN ctl)"
    by (simp add: mined_def 1)
  show "HJBODE m (Scalar z) (Point v0 dv) th = Inr ([dv], [NaN])"
    by (simp add: HJBODE_def mined_def 1)
qed

text \<open>
  On the array path \<open>np.min\<close> returns NaN as soon as one of the two objectives is NaN, so
  there a negative discriminant of either quadratic, at either root, gives NaN.
\<close>

lemma negative_discriminant_array_path:
  assumes "mined_disc m z dv < Fin 0 \<or> S1_disc m (s21 m z dv) z < Fin 0 \<or>
           S1_disc m (s22 m z dv) z < Fin 0"
  shows "mined m (Scalar z) (Array [dv]) = Inr (Ret_array [NaN])"
    and "HJBODE m (Array [z]) (Mesh [v0] [dv]) th = Inr ([dv], [NaN])"
proof -
  have "mined1 m z dv = NaN \<or> mined2 m z dv = NaN"
    using assms
    by (auto simp add: mined1_def mined2_def mined_disc_neg S1_disc_neg mined_obj_NaN)
  then have n: "np_min (mined1 m z dv) (mined2 m z dv) = NaN" by auto
  show "mined m (Scalar z) (Array [dv]) = Inr (Ret_array [NaN])"
    by (simp add: mined_def n)
  show "HJBODE m (Array [z]) (Mesh [v0] [dv]) th = Inr ([dv], [NaN])"
    by (simp add: HJBODE_def mined_def n)
qed

text \<open>
  The two paths part when only the second objective is NaN (a negative discriminant of
  \<open>__S1\<close> at \<open>s22\<close> alone): the builtin \<open>min(mined1, mined2)\<close> then returns the finite
  \<open>mined1\<close>, and both comparisons being false the control is \<open>s21 * 0 + s22 * 0\<close>;
  \<open>np.min\<close> returns NaN at the same point.
\<close>

lemma py_min_keeps_first: "py_min (Fin a) NaN = Fin a"
  by (simp add: py_min_def)

lemma scalar_path_drops_second_NaN:
  assumes "mined1 m z dv = Fin a" and "mined2 m z dv = NaN"
  shows "mined m (Scalar z) (Scalar dv)
           = Inr (Ret_tuple (Fin a) (s21 m z dv * Fin 0 + s22 m z dv * Fin 0))"
    and "mined m (Scalar z) (Array [dv]) = Inr (Ret_array [NaN])"
    and "HJBODE m (Scalar z) (Point v0 dv) th = Inr ([dv], [hjb_rhs m th v0 dv (Fin a)])"
  using assms by (simp_all add: mined_def HJBODE_def py_min_keeps_first of_bool_fl_def)

text \<open>A point with a negative discriminant of \<open>__mined\<close>, in the small model.\<close>

lemma toy_disc: "mined_disc (toy_model 0 1) (Fin 0) (Fin (1/100)) = Fin (- 8)"
  by (simp add: mined_disc_def mined_quad_def toy_model_def toy_params_def Let_def sq_def
      minus_fl_def norm2_def)

lemma toy_disc_NaN:
  "HJBODE (toy_model 0 1) (Scalar (Fin 0)) (Point (Fin 3) (Fin (1/100))) (Fin 1)
     = Inr ([Fin (1/100)], [NaN])"
  by (rule negative_discriminant_first_branch) (simp add: toy_disc)

subsection \<open>What the minimizer returns\<close>

lemma py_min_Fin [simp]: "py_min (Fin a) (Fin b) = Fin (min a b)"
  by (simp add: py_min_def min_def)

lemma np_min_Fin [simp]: "np_min (Fin a) (Fin b) = Fin (min a b)"
  by (simp add: np_min_def min_def)

text \<open>The two branches at \<open>z = 0\<close>, \<open>dv = 0.01\<close> in the small model with \<open>q0s = rho2 = 2\<close>.\<close>

lemma toy_branches:
  "s21 (toy_model 2 2) (Fin 0) (Fin (1/100)) = Fin (- 1) \<and>
   s22 (toy_model 2 2) (Fin 0) (Fin (1/100)) = Fin 1 \<and>
   mined1 (toy_model 2 2) (Fin 0) (Fin (1/100)) = Fin (- 1/50) \<and>
   mined2 (toy_model 2 2) (Fin 0) (Fin (1/100)) = Fin 0"
proof -
  have s16: "sqrt 16 = 4" by (rule real_sqrt_unique) simp_all
  have d: "mined_disc (toy_model 2 2) (Fin 0) (Fin (1/100)) = Fin 16"
    by (simp add: mined_disc_def mined_quad_def toy_model_def toy_params_def Let_def sq_def
        minus_fl_def norm2_def)
  have r1: "s21 (toy_model 2 2) (Fin 0) (Fin (1/100)) = Fin (- 1)"
    by (simp add: s21_def d s16)
      (simp add: mined_quad_def toy_model_def toy_params_def Let_def sq_def
        minus_fl_def norm2_def)
  have r2: "s22 (toy_model 2 2) (Fin 0) (Fin (1/100)) = Fin 1"
    by (simp add: s22_def d s16)
      (simp add: mined_quad_def toy_model_def toy_params_def Let_def sq_def
        minus_fl_def norm2_def)
  have o1: "mined_obj (toy_model 2 2) (Fin 0) (Fin (1/100)) (Fin (- 1)) = Fin (- 1/50)"
    by (simp add: mined_obj_def S1_def S1_disc_def toy_model_def toy_params_def
        Let_def sq_def minus_fl_def norm2_def)
  have o2: "mined_obj (toy_model 2 2) (Fin 0) (Fin (1/100)) (Fin 1) = Fin 0"
    by (simp add: mined_obj_def S1_def S1_disc_def toy_model_def toy_params_def
        Let_def sq_def minus_fl_def norm2_def)
  have m1: "mined1 (toy_model 2 2) (Fin 0) (Fin (1/100)) = Fin (- 1/50)"
    by (simp only: mined1_def r1 o1)
  have m2: "mined2 (toy_model 2 2) (Fin 0) (Fin (1/100)) = Fin 0"
    by (simp only: mined2_def r2 o2)
  from r1 r2 m1 m2 show ?thesis by blast
qed

text \<open>
  C3 as stated fails: called with an array of derivative values, \<open>__mined\<close> returns
  the array of minima alone, not a pair; no control value comes back.
\<close>

theorem mined_array_counterexample:
  "mined (toy_model 2 2) (Scalar (Fin 0)) (Array [Fin (1/100)]) = Inr (Ret_array [Fin (- 1/50)])"
  using toy_branches by (simp add: mined_def)

text \<open>
  C3, amended.  For a scalar pair \<open>(z, dv)\<close> at which both roots and both branch
  objectives are finite, \<open>__mined\<close> returns the pair of the smaller objective and the
  root of the branch that attains it (the first branch on a tie).  For an array of
  derivative values (with a scalar \<open>z\<close>, or an array \<open>z\<close> of the same length) it
  returns only an array, as long as the input, holding at each index where both
  objectives are finite the smaller of the two; the selected controls are not returned.
\<close>

theorem mined_returns:
  "(mined1 m z dv = Fin x1 \<and> mined2 m z dv = Fin x2 \<and> s21 m z dv = Fin r1 \<and> s22 m z dv = Fin r2
      \<longrightarrow> mined m (Scalar z) (Scalar dv)
            = Inr (Ret_tuple (Fin (min x1 x2)) (Fin (if x1 \<le> x2 then r1 else r2)))) \<and>
   (\<exists>rs. mined m (Scalar z) (Array dvs) = Inr (Ret_array rs) \<and> length rs = length dvs \<and>
      (\<forall>i < length dvs. \<forall>y1 y2.
          mined1 m z (dvs ! i) = Fin y1 \<and> mined2 m z (dvs ! i) = Fin y2 \<longrightarrow>
          rs ! i = Fin (min y1 y2))) \<and>
   (length zs = length dvs \<longrightarrow>
     (\<exists>rs. mined m (Array zs) (Array dvs) = Inr (Ret_array rs) \<and> length rs = length dvs \<and>
      (\<forall>i < length dvs. \<forall>y1 y2.
          mined1 m (zs ! i) (dvs ! i) = Fin y1 \<and> mined2 m (zs ! i) (dvs ! i) = Fin y2 \<longrightarrow>
          rs ! i = Fin (min y1 y2))))"
  by (auto simp add: mined_def of_bool_fl_def)

theorem mined_returns_witness:
  "mined1 (toy_model 2 2) (Fin 0) (Fin (1/100)) = Fin (- 1/50) \<and>
   mined2 (toy_model 2 2) (Fin 0) (Fin (1/100)) = Fin 0 \<and>
   s21 (toy_model 2 2) (Fin 0) (Fin (1/100)) = Fin (- 1) \<and>
   s22 (toy_model 2 2) (Fin 0) (Fin (1/100)) = Fin 1 \<and>
   mined (toy_model 2 2) (Scalar (Fin 0)) (Scalar (Fin (1/100)))
     = Inr (Ret_tuple (Fin (- 1/50)) (Fin (- 1))) \<and>
   (\<exists>rs. mined (toy_model 2 2) (Scalar (Fin 0)) (Array [Fin (1/100)]) = Inr (Ret_array rs) \<and>
         length rs = 1 \<and> rs ! 0 = Fin (- 1/50)) \<and>
   (\<exists>rs. mined (toy_model 2 2) (Array [Fin 0]) (Array [Fin (1/100)]) = Inr (Ret_array rs) \<and>
         length rs = 1 \<and> rs ! 0 = Fin (- 1/50))"
  using toy_branches
    mined_returns [of "toy_model 2 2" "Fin 0" "Fin (1/100)" "- 1/50" 0 "- 1" 1
      "[Fin (1/100)]" "[Fin 0]"]
  by simp

subsection \<open>Derived drifts and the stored solution\<close>

lemma minimizer_ignores_drift [simp]:
  "S1_disc (m\<lparr>driftk := dk\<rparr>) = S1_disc m" "S1_disc (m\<lparr>driftz := dz\<rparr>) = S1_disc m"
  "mined_quad (m\<lparr>driftk := dk\<rparr>) = mined_quad m" "mined_quad (m\<lparr>driftz := dz\<rparr>) = mined_quad m"
  "quadform (m\<lparr>driftk := dk\<rparr>) = quadform m" "quadform (m\<lparr>driftz := dz\<rparr>) = quadform m"
  by (simp_all add: fun_eq_iff S1_disc_def mined_quad_def quadform_def)

lemma roots_ignore_drift [simp]:
  "S1 (m\<lparr>driftk := dk\<rparr>) = S1 m" "S1 (m\<lparr>driftz := dz\<rparr>) = S1 m"
  "mined_disc (m\<lparr>driftk := dk\<rparr>) = mined_disc m" "mined_disc (m\<lparr>driftz := dz\<rparr>) = mined_disc m"
  by (simp_all add: fun_eq_iff S1_def mined_disc_def)

lemma s2_ignore_drift [simp]:
  "s21 (m\<lparr>driftk := dk\<rparr>) = s21 m" "s21 (m\<lparr>driftz := dz\<rparr>) = s21 m"
  "s22 (m\<lparr>driftk := dk\<rparr>) = s22 m" "s22 (m\<lparr>driftz := dz\<rparr>) = s22 m"
  "mined_obj (m\<lparr>driftk := dk\<rparr>) = mined_obj m" "mined_obj (m\<lparr>driftz := dz\<rparr>) = mined_obj m"
  "hjb_rhs (m\<lparr>driftk := dk\<rparr>) = hjb_rhs m" "hjb_rhs (m\<lparr>driftz := dz\<rparr>) = hjb_rhs m"
  by (simp_all add: fun_eq_iff s21_def s22_def mined_obj_def hjb_rhs_def)

lemma objectives_ignore_drift [simp]:
  "mined1 (m\<lparr>driftk := dk\<rparr>) = mined1 m" "mined1 (m\<lparr>driftz := dz\<rparr>) = mined1 m"
  "mined2 (m\<lparr>driftk := dk\<rparr>) = mined2 m" "mined2 (m\<lparr>driftz := dz\<rparr>) = mined2 m"
  by (simp_all add: fun_eq_iff mined1_def mined2_def)

lemma mined_ignores_drift [simp]:
  "mined (m\<lparr>driftk := dk\<rparr>) = mined m" "mined (m\<lparr>driftz := dz\<rparr>) = mined m"
  by (simp_all add: fun_eq_iff mined_def split: pynum.splits)

lemma HJBODE_ignores_drift [simp]:
  "HJBODE (m\<lparr>driftk := dk\<rparr>) = HJBODE m" "HJBODE (m\<lparr>driftz := dz\<rparr>) = HJBODE m"
  by (simp_all add: fun_eq_iff HJBODE_def split: ode_state.splits sum.splits mined_ret.splits)

lemma d2v_at_ok:
  assumes "2 \<le> length ys" "j < length (hd ys)"
  shows "d2v_at m xs ys (Some t) j = Inr (d2v_value m t xs ys j)"
  using assms by (auto simp add: d2v_at_def d2v_value_def HJBODE_def mined_def)

lemma d2v_loop_ok:
  assumes "2 \<le> length ys" "\<forall>j \<in> set js. j < length (hd ys)"
  shows "d2v_loop m xs ys (Some t) js = Inr (map (d2v_value m t xs ys) js)"
  using assms by (induction js) (simp_all add: d2v_at_ok)

lemma drift_row_ok:
  assumes "length Dst = 4" "rect n Dst"
  shows "drift_row srow Dst
           = Inr (map (\<lambda>j. Fin (fst srow) * (Dst ! 2 ! j) + Fin (snd srow) * (Dst ! 3 ! j)) [0 ..< n])"
proof -
  obtain r0 r1 h1 h2 where D: "Dst = [r0, r1, h1, h2]"
    using assms(1) by (auto simp add: length_Suc_conv numeral_eq_Suc)
  have l: "length h1 = n" "length h2 = n" using assms(2) by (simp_all add: rect_def D)
  show ?thesis
    by (simp add: drift_row_def D l) (rule nth_equalityI; simp add: l)
qed


lemma bcast2_same: "length us = length ws \<Longrightarrow> bcast2 f us ws = Inr (map (\<lambda>(u, w). f u w) (zip us ws))"
  by (simp add: bcast2_def)

lemma UpdatingDrift_result:
  assumes v: "sol m = Some v" and D: "Distorted m = Some Dst" and t: "theta m = Some t"
    and D4: "length Dst = 4" and Dr: "rect (length (res_x v)) Dst"
    and y2: "length (res_y v) = 2" and yr: "rect (length (res_x v)) (res_y v)"
  shows "UpdatingDrift m =
     (Inr (),
      m\<lparr>driftk := Some (map (\<lambda>j. Fin (fst (fst (sigma (par m)))) * (Dst ! 2 ! j)
                                + Fin (snd (fst (sigma (par m)))) * (Dst ! 3 ! j)
                                + Fin (alphak (par m))
                                + Fin (betak (par m)) * (Fin (res_x v ! j) - Fin (zbar (par m))))
                         [0 ..< length (res_x v)]),
        driftz := Some (map (\<lambda>j. Fin (fst (snd (sigma (par m)))) * (Dst ! 2 ! j)
                                + Fin (snd (snd (sigma (par m)))) * (Dst ! 3 ! j)
                                + Fin (alphaz (par m))
                                - Fin (betaz (par m)) * (Fin (res_x v ! j) - Fin (zbar (par m))))
                         [0 ..< length (res_x v)]),
        sol := Some (v\<lparr>res_y := res_y v @
                 [map (d2v_value m t (res_x v) (res_y v)) [0 ..< length (res_x v)]]\<rparr>)\<rparr>)"
proof -
  let ?n = "length (res_x v)"
  obtain y0 y1 where ys: "res_y v = [y0, y1]"
    using y2 by (auto simp add: length_Suc_conv numeral_eq_Suc)
  have ly: "length y0 = ?n" "length y1 = ?n" using yr by (simp_all add: rect_def ys)
  have loop: "d2v_loop m' (res_x v) (res_y v) (Some t) [0 ..< ?n]
                = Inr (map (d2v_value m' t (res_x v) (res_y v)) [0 ..< ?n])" for m'
    by (rule d2v_loop_ok) (simp_all add: ys ly)
  have val: "d2v_value (m\<lparr>driftk := a, driftz := b\<rparr>) = d2v_value m" for a b
    by (simp add: fun_eq_iff d2v_value_def)
  have tk: "take 2 (res_y v) = res_y v" using y2 by simp
  have z: "map (\<lambda>(u, w). f u w) (zip (map g [0 ..< ?n]) (map h (res_x v)))
             = map (\<lambda>j. f (g j) (h (res_x v ! j))) [0 ..< ?n]" for f :: "fl \<Rightarrow> fl \<Rightarrow> fl" and g h
    by (rule nth_equalityI) simp_all
  show ?thesis
    by (simp add: UpdatingDrift_def v D t drift_row_ok [OF D4 Dr] bcast2_same loop val
        Let_def tk yr y2 z)
qed

text \<open>
  C10.  On a model holding a matched solution of two rows over its grid, a distortion array
  of four rows and a theta, \<open>UpdatingDrift\<close> returns normally; afterwards the grid
  \<open>v['x']\<close> is unchanged and \<open>v['y']\<close> is the old array with one row appended: rows 0
  and 1 are what they were, and row 2 holds, at each grid point, the second row of the HJB
  right-hand side evaluated at the stored theta.
\<close>

theorem UpdatingDrift_frame:
  assumes v: "sol m = Some v" and D: "Distorted m = Some Dst" and t: "theta m = Some t"
    and D4: "length Dst = 4" and Dr: "rect (length (res_x v)) Dst"
    and y2: "length (res_y v) = 2" and yr: "rect (length (res_x v)) (res_y v)"
  shows "\<exists>m'. UpdatingDrift m = (Inr (), m') \<and>
           (\<exists>v'. sol m' = Some v' \<and> res_x v' = res_x v \<and>
              res_y v' = res_y v @ [map (d2v_value m t (res_x v) (res_y v)) [0 ..< length (res_x v)]] \<and>
              length (res_y v') = 3 \<and>
              res_y v' ! 0 = res_y v ! 0 \<and> res_y v' ! 1 = res_y v ! 1 \<and>
              res_diff v' = res_diff v \<and> res_dv0 v' = res_dv0 v) \<and>
           theta m' = theta m \<and> Distorted m' = Distorted m \<and> status m' = status m"
  by (simp add: UpdatingDrift_result [OF assms] y2 nth_append)

theorem UpdatingDrift_frame_witness:
  "sol (toy_solved 0) = Some toy_sol \<and> Distorted (toy_solved 0) = Some (map (map Fin) toy_H) \<and>
   theta (toy_solved 0) = Some (Fin 1) \<and> length (map (map Fin) toy_H) = 4 \<and>
   rect (length (res_x toy_sol)) (map (map Fin) toy_H) \<and>
   length (res_y toy_sol) = 2 \<and> rect (length (res_x toy_sol)) (res_y toy_sol) \<and>
   (\<exists>m'. UpdatingDrift (toy_solved 0) = (Inr (), m') \<and>
      (\<exists>v'. sol m' = Some v' \<and> res_x v' = [0, 1] \<and> length (res_y v') = 3 \<and>
         res_y v' ! 0 = [Fin 1, Fin 2] \<and> res_y v' ! 1 = [Fin (1/100), Fin (1/100)]))"
proof -
  have h1: "sol (toy_solved 0) = Some toy_sol" by (simp add: toy_solved_def)
  have h2: "Distorted (toy_solved 0) = Some (map (map Fin) toy_H)" by (simp add: toy_solved_def)
  have h3: "theta (toy_solved 0) = Some (Fin 1)" by (simp add: toy_solved_def)
  have h4: "length (map (map Fin) toy_H) = 4" by (simp add: toy_H_def)
  have h5: "rect (length (res_x toy_sol)) (map (map Fin) toy_H)"
    by (simp add: rect_def toy_H_def toy_sol_def)
  have h6: "length (res_y toy_sol) = 2" by (simp add: toy_sol_def)
  have h7: "rect (length (res_x toy_sol)) (res_y toy_sol)" by (simp add: rect_def toy_sol_def)
  have x: "res_x toy_sol = [0, 1]" "res_y toy_sol ! 0 = [Fin 1, Fin 2]"
    "res_y toy_sol ! 1 = [Fin (1/100), Fin (1/100)]"
    by (simp_all add: toy_sol_def)
  show ?thesis
    using h1 h2 h3 h4 h5 h6 h7 UpdatingDrift_frame [OF h1 h2 h3 h4 h5 h6 h7] x
    by auto
qed

lemma ExpectH_muz_result:
  assumes v: "sol m = Some v" and D: "Distorted m = Some Dst"
    and D4: "length Dst = 4" and Dr: "rect (length (res_x v)) Dst"
  shows "ExpectH_muz m =
     Inr (map (\<lambda>j. Fin (fst (snd (sigma (par m)))) * (Dst ! 2 ! j)
                    + Fin (snd (snd (sigma (par m)))) * (Dst ! 3 ! j)
                    + Fin (alphaz (par m))
                    - Fin (betaz (par m)) * Fin (res_x v ! j))
             [0 ..< length (res_x v)])"
proof -
  let ?n = "length (res_x v)"
  have z: "map (\<lambda>(u, w). f u w) (zip (map g [0 ..< ?n]) (map h (res_x v)))
             = map (\<lambda>j. f (g j) (h (res_x v ! j))) [0 ..< ?n]" for f :: "fl \<Rightarrow> fl \<Rightarrow> fl" and g h
    by (rule nth_equalityI) simp_all
  show ?thesis
    by (simp add: ExpectH_muz_def v D drift_row_ok [OF D4 Dr] bcast2_same z)
qed




text \<open>
  With \<open>zbar = 1/2\<close> and \<open>betaz = 1\<close> in the small model the two fields differ:
  \<open>driftz\<close> is \<open>[3.5, 3.5]\<close> and \<open>muz\<close> is \<open>[3, 3]\<close>.
\<close>

lemma ExpectH_drift_differs_example:
  "driftz (snd (UpdatingDrift (toy_solved (1/2)))) = Some [Fin (7/2), Fin (7/2)] \<and>
   ExpectH_muz (snd (UpdatingDrift (toy_solved (1/2)))) = Inr [Fin 3, Fin 3]"
proof -
  have h1: "sol (toy_solved (1/2)) = Some toy_sol" by (simp add: toy_solved_def)
  have h2: "Distorted (toy_solved (1/2)) = Some (map (map Fin) toy_H)"
    by (simp add: toy_solved_def)
  have h3: "theta (toy_solved (1/2)) = Some (Fin 1)" by (simp add: toy_solved_def)
  have h4: "length (map (map Fin) toy_H) = 4" by (simp add: toy_H_def)
  have h5: "rect (length (res_x toy_sol)) (map (map Fin) toy_H)"
    by (simp add: rect_def toy_H_def toy_sol_def)
  have h6: "length (res_y toy_sol) = 2" by (simp add: toy_sol_def)
  have h7: "rect (length (res_x toy_sol)) (res_y toy_sol)" by (simp add: rect_def toy_sol_def)
  note U = UpdatingDrift_result [OF h1 h2 h3 h4 h5 h6 h7]
  have fr: "ExpectH_muz (snd (UpdatingDrift (toy_solved (1/2)))) = ExpectH_muz (toy_solved (1/2))"
    unfolding U by (simp add: ExpectH_muz_def h1 h2 split: sum.splits)
  have n: "[0 ..< length (res_x toy_sol)] = [0, 1]"
    by (simp add: toy_sol_def upt_rec)
  have p: "par (toy_solved (1/2)) = toy_params\<lparr>zbar := 1/2\<rparr>"
    by (simp add: toy_solved_def)
  have mu: "ExpectH_muz (toy_solved (1/2)) = Inr [Fin 3, Fin 3]"
    unfolding ExpectH_muz_result [OF h1 h2 h4 h5] n
    by (simp add: p toy_params_def toy_H_def toy_sol_def minus_fl_def)
  have dz: "driftz (snd (UpdatingDrift (toy_solved (1/2)))) = Some [Fin (7/2), Fin (7/2)]"
    unfolding U n by (simp add: p toy_params_def toy_H_def toy_sol_def minus_fl_def)
  from dz fr mu show ?thesis by simp
qed

subsection \<open>The canonical state grid\<close>









subsection \<open>Relative entropy of an undistorted field\<close>

lemma pick_props:
  "pick b rs = (p, os) \<Longrightarrow> set (p # os) = set (b # rs) \<and> length os = length rs"
proof (induction rs arbitrary: b p os)
  case Nil
  then show ?case by simp
next
  case (Cons r rs)
  show ?case
  proof (cases "\<bar>lead (fst b)\<bar> < \<bar>lead (fst r)\<bar>")
    case True
    obtain p' os' where e: "pick r rs = (p', os')" by (cases "pick r rs")
    with Cons.prems True have "p = p'" "os = b # os'" by simp_all
    with Cons.IH [OF e] show ?thesis by auto
  next
    case False
    obtain p' os' where e: "pick b rs = (p', os')" by (cases "pick b rs")
    with Cons.prems False have "p = p'" "os = r # os'" by simp_all
    with Cons.IH [OF e] show ?thesis by auto
  qed
qed


lemma sum_list_eliminate:
  "length t = length as \<Longrightarrow>
     sum_list (map (\<lambda>(u, w). u - f * w) (zip t as)) = sum_list t - f * sum_list as"
  for f :: real
  by (induction t as rule: list_induct2) (simp_all add: algebra_simps)

lemma dot_replicate: "dot as (replicate (length as) c) = c * sum_list as"
  by (induction as) (simp_all add: dot_def algebra_simps)

lemma eliminate_const:
  assumes p: "fst p = a # as" "snd p = c * sum_list (fst p)" "a \<noteq> 0"
    and r: "length (fst r) = Suc (length as)" "snd r = c * sum_list (fst r)"
  shows "length (fst (eliminate p r)) = length as \<and>
         snd (eliminate p r) = c * sum_list (fst (eliminate p r))"
proof -
  obtain h t where ht: "fst r = h # t" using r(1) by (cases "fst r") simp_all
  have lt: "length t = length as" using r(1) ht by simp
  have e: "eliminate p r
             = (map (\<lambda>(u, w). u - h / a * w) (zip t as), snd r - h / a * snd p)"
    by (simp add: eliminate_def Let_def lead_def ht p(1))
  have s: "sum_list (fst (eliminate p r)) = sum_list t - h / a * sum_list as"
    unfolding e using sum_list_eliminate [OF lt, of "h / a"] by simp
  have "snd (eliminate p r) = c * (h + sum_list t) - h / a * (c * (a + sum_list as))"
    unfolding e by (simp add: r(2) p(2) ht p(1))
  also have "\<dots> = c * (sum_list t - h / a * sum_list as)"
    using p(3) by (simp add: field_simps)
  finally have "snd (eliminate p r) = c * sum_list (fst (eliminate p r))"
    unfolding s .
  moreover have "length (fst (eliminate p r)) = length as"
    unfolding e using lt by simp
  ultimately show ?thesis by blast
qed

lemma gauss_const:
  assumes "\<forall>r \<in> set rows. length (fst r) = n \<and> snd r = c * sum_list (fst r)"
    and "gauss n rows = Some xs"
  shows "xs = replicate n c"
  using assms
proof (induction n arbitrary: rows xs)
  case 0
  then show ?case by simp
next
  case (Suc n)
  from Suc.prems(2) obtain r rs where rows: "rows = r # rs"
    by (cases rows) simp_all
  obtain p os where pk: "pick r rs = (p, os)" by (cases "pick r rs")
  from pick_props [OF pk] have st: "set (p # os) = set rows" by (simp add: rows)
  from Suc.prems(2) have nz: "lead (fst p) \<noteq> 0"
    by (auto simp add: rows pk split: if_splits)
  from st Suc.prems(1) have pp: "length (fst p) = Suc n" "snd p = c * sum_list (fst p)"
    by auto
  then obtain a as where aas: "fst p = a # as" by (cases "fst p") simp_all
  have la: "length as = n" using pp(1) aas by simp
  have a0: "a \<noteq> 0" using nz by (simp add: lead_def aas)
  from Suc.prems(2) obtain xs' where
    g: "gauss n (map (eliminate p) os) = Some xs'" and
    x: "xs = (snd p - dot (tl (fst p)) xs') / lead (fst p) # xs'"
    by (auto simp add: rows pk nz split: option.splits)
  have "\<forall>r' \<in> set (map (eliminate p) os).
          length (fst r') = n \<and> snd r' = c * sum_list (fst r')"
  proof
    fix r' assume "r' \<in> set (map (eliminate p) os)"
    then obtain o' where o: "o' \<in> set os" "r' = eliminate p o'" by auto
    with st Suc.prems(1) have "length (fst o') = Suc (length as)" "snd o' = c * sum_list (fst o')"
      by (auto simp add: la)
    from eliminate_const [OF aas pp(2) a0 this] show
      "length (fst r') = n \<and> snd r' = c * sum_list (fst r')"
      by (simp add: o(2) la)
  qed
  from Suc.IH [OF this g] have xs': "xs' = replicate n c" .
  have "dot as xs' = c * sum_list as"
    using dot_replicate [of as c] by (simp add: xs' la)
  then have "(snd p - dot (tl (fst p)) xs') / lead (fst p) = c"
    using a0 by (simp add: aas pp(2) lead_def algebra_simps)
  with x xs' show ?case by simp
qed


lemma solve_zero_rhs:
  assumes "solve A (replicate (length A) 0) = Inr sl"
  shows "sl = replicate (length A) 0"
proof -
  from assms have r: "rect (length A) A" and
    g: "gauss (length A) (zip A (replicate (length A) 0)) = Some sl"
    by (auto simp add: solve_def split: if_splits option.splits)
  have "\<forall>r \<in> set (zip A (replicate (length A) 0)).
          length (fst r) = length A \<and> snd r = 0 * sum_list (fst r)"
    using r by (auto simp add: rect_def set_zip)
  from gauss_const [OF this g] show ?thesis .
qed

lemma picked_zero:
  "length zs = n \<Longrightarrow>
   map snd (filter (\<lambda>(z, w). z = b) (zip zs (replicate n (0::real))))
     = replicate (length (filter (\<lambda>z. z = b) zs)) 0"
proof (induction zs arbitrary: n)
  case Nil
  then show ?case by simp
next
  case (Cons z zs)
  then obtain k where n: "n = Suc k" "length zs = k" by (cases n) auto
  with Cons.IH [of k] show ?case by simp
qed

text \<open>
  C5, amended.  With the worst-case field equal to the baseline field at every grid point,
  whenever \<open>__RelativeEntropyUS\<close> returns (the grid has at least three points and
  \<open>np.linalg.solve\<close> accepts the pinned system), every returned entry is exactly 0:
  the right-hand side is zero, so the solution is zero and so is
  \<open>sqrt(2 * solution)\<close> at each grid point equal to \<open>zbar\<close>; when the grid contains
  \<open>zbar\<close> there is at least one such entry.
\<close>

theorem RelativeEntropyUS_zero_distortion:
  assumes "RelativeEntropyUS m h h zgrid = Inr q"
  shows "q = replicate (length (filter (\<lambda>z. z = zbar (par m)) zgrid)) 0 \<and>
         (\<forall>w \<in> set q. w = 0) \<and>
         (zbar (par m) \<in> set zgrid \<longrightarrow> q \<noteq> [])"
proof -
  let ?k = "length (filter (\<lambda>z. z = zbar (par m)) zgrid)"
  have q: "q = replicate ?k 0"
  proof (cases "length zgrid = 0")
    case True
    with assms show ?thesis
      by (simp add: RelativeEntropyUS_def Let_def split: if_splits)
  next
    case False
    let ?Nz = "length zgrid"
    let ?lhs = "map (\<lambda>row. map (\<lambda>(z, c). if z = zbar (par m) then 1 else c) (zip zgrid row))
                  (map (Q_row m h zgrid) [0 ..< ?Nz])"
    have rhs: "map (\<lambda>j. ((h ! 0 ! j - h ! 0 ! j)\<^sup>2 + (h ! 1 ! j - h ! 1 ! j)\<^sup>2) / 2) [0 ..< ?Nz]
                 = replicate (length ?lhs) (0::real)"
      by (simp add: map_replicate_const)
    from assms False obtain sl where
      sl: "solve ?lhs (replicate (length ?lhs) 0) = Inr sl" and
      qq: "q = map (\<lambda>w. sqrt (w * 2))
                 (map snd (filter (\<lambda>(z, w). z = zbar (par m)) (zip zgrid sl)))"
      unfolding RelativeEntropyUS_def Let_def rhs
      by (auto split: if_splits sum.splits)
    from solve_zero_rhs [OF sl] have "sl = replicate ?Nz 0" by simp
    with qq picked_zero [of zgrid ?Nz "zbar (par m)"] show ?thesis by simp
  qed
  moreover have "zbar (par m) \<in> set zgrid \<longrightarrow> ?k \<noteq> 0"
    by (auto simp add: filter_empty_conv)
  ultimately show ?thesis by auto
qed


lemma Q_singular:
  "map (\<lambda>row. map (\<lambda>(z, c). if z = zbar (par (toy_model 2 2)) then 1 else c) (zip grid3 row))
     (map (Q_row (toy_model 2 2) eta_cancel grid3) [0 ..< length grid3])
   = [[- 5000, 1, - 5000], [- 5000, 1, - 5000], [- 5000, 1, - 4999]]"
  by (simp add: Q_row_def re_drift_def toy_model_def toy_params_def grid3_def eta_cancel_def
      Let_def norm2_def upt_rec numeral_3_eq_3 power2_eq_square)

lemma Q_regular:
  "map (\<lambda>row. map (\<lambda>(z, c). if z = zbar (par (toy_model 2 2)) then 1 else c) (zip grid3 row))
     (map (Q_row (toy_model 2 2) eta_zero grid3) [0 ..< length grid3])
   = [[- 4999, 1, - 5000], [- 5000, 1, - 5000], [- 5000, 1, - 4999]]"
  by (simp add: Q_row_def re_drift_def toy_model_def toy_params_def grid3_def eta_zero_def
      Let_def norm2_def upt_rec numeral_3_eq_3 power2_eq_square)

lemma solve_singular:
  "solve [[- 5000, 1, - 5000], [- 5000, 1, - 5000], [- 5000, 1, - 4999]] [0, 0, 0] = Inl LinAlgError"
  by (simp add: solve_def rect_def numeral_3_eq_3 lead_def eliminate_def dot_def Let_def)

lemma solve_regular:
  "solve [[- 4999, 1, - 5000], [- 5000, 1, - 5000], [- 5000, 1, - 4999]] [0, 0, 0] = Inr [0, 0, 0]"
  by (simp add: solve_def rect_def numeral_3_eq_3 lead_def eliminate_def dot_def Let_def)


lemma toy_shapes:
  "length eta_cancel = 2" "rect 3 eta_cancel"
  "length eta_zero = 2" "rect 3 eta_zero"
  "length grid3 = 3" "gridDz (toy_model 2 2) = 1 / 100" "zbar (par (toy_model 2 2)) = 0"
  by (simp_all add: eta_cancel_def eta_zero_def grid3_def rect_def toy_model_def toy_params_def)

lemma zero_rhs3:
  "map (\<lambda>j. ((h ! 0 ! j - h ! 0 ! j)\<^sup>2 + (h ! 1 ! j - h ! 1 ! j)\<^sup>2) / 2) [0 ..< length grid3]
     = [0, 0, 0 :: real]"
  by (simp add: grid3_def upt_rec numeral_3_eq_3)

text \<open>
  C5 as stated fails: on the three-point grid around \<open>zbar = 0\<close>, with the same field for
  both arguments, a field that cancels the baseline drift at the first two points makes
  the first two rows of the pinned matrix equal, and \<open>np.linalg.solve\<close> raises
  \<open>LinAlgError\<close>; nothing is returned.
\<close>

theorem RelativeEntropyUS_singular:
  "zbar (par (toy_model 2 2)) \<in> set grid3 \<and>
   RelativeEntropyUS (toy_model 2 2) eta_cancel eta_cancel grid3 = Inl LinAlgError"
proof -
  have "RelativeEntropyUS (toy_model 2 2) eta_cancel eta_cancel grid3 = Inl LinAlgError"
    unfolding RelativeEntropyUS_def Let_def Q_singular zero_rhs3
    by (simp add: toy_shapes solve_singular)
  moreover have "zbar (par (toy_model 2 2)) \<in> set grid3"
    by (simp add: toy_shapes grid3_def)
  ultimately show ?thesis by blast
qed

lemma RelativeEntropyUS_regular:
  "RelativeEntropyUS (toy_model 2 2) eta_zero eta_zero grid3 = Inr [0]"
  unfolding RelativeEntropyUS_def Let_def Q_regular zero_rhs3
  by (simp add: toy_shapes solve_regular) (simp add: grid3_def)

theorem RelativeEntropyUS_zero_distortion_witness:
  "RelativeEntropyUS (toy_model 2 2) eta_zero eta_zero grid3 = Inr [0] \<and>
   zbar (par (toy_model 2 2)) \<in> set grid3 \<and>
   length (filter (\<lambda>z. z = zbar (par (toy_model 2 2))) grid3) = 1"
proof -
  note h = RelativeEntropyUS_regular
  from RelativeEntropyUS_zero_distortion [OF h]
  have "[0 :: real] = replicate (length (filter (\<lambda>z. z = zbar (par (toy_model 2 2))) grid3)) 0"
    by blast
  then have "length (filter (\<lambda>z. z = zbar (par (toy_model 2 2))) grid3) = 1"
    by (metis length_Cons length_replicate list.size(3) One_nat_def)
  moreover have "zbar (par (toy_model 2 2)) \<in> set grid3"
    by (simp add: toy_shapes grid3_def)
  ultimately show ?thesis using h by blast
qed

end
